theory Spec2Isabelle
  imports Complex_Main "HOL-Library.AList"
begin

section \<open>JavaScript values\<close>

text \<open>
  The worker pool of \<^verbatim>\<open>lib/pool.js\<close> handles values it did not create: a filepath of any
  type, configuration objects known only by their identity, results of a worker. They are
  modelled by the types below. An object is a reference into a store; what it holds is a
  map from property names to values (its own enumerable data properties).

  A JavaScript number is an IEEE double. The module only compares numbers, takes their
  maximum and subtracts one from an array length; none of these rounds, so the finite
  numbers are taken to be reals (every double is one), with the three special values
  apart. Negative zero is not told apart from zero. Symbols, big integers and functions do
  not occur.
\<close>

type_synonym ref = nat

datatype jsnum = NaN | NegInf | Fin real | PosInf

datatype jsval =
    JUndefined
  | JNull
  | JBool bool
  | JNumber jsnum
  | JString string
  | JObject ref

type_synonym props = "string \<rightharpoonup> jsval"

text \<open>The truth value of a value, as \<^verbatim>\<open>!v\<close> and \<^verbatim>\<open>if (v)\<close> read it.\<close>

fun truthy :: "jsval \<Rightarrow> bool" where
  "truthy JUndefined = False"
| "truthy JNull = False"
| "truthy (JBool b) = b"
| "truthy (JNumber n) = (n \<noteq> NaN \<and> n \<noteq> Fin 0)"
| "truthy (JString s) = (s \<noteq> [])"
| "truthy (JObject r) = True"

fun typeof :: "jsval \<Rightarrow> string" where
  "typeof JUndefined = ''undefined''"
| "typeof JNull = ''object''"
| "typeof (JBool b) = ''boolean''"
| "typeof (JNumber n) = ''number''"
| "typeof (JString s) = ''string''"
| "typeof (JObject r) = ''object''"

text \<open>\<^verbatim>\<open>a >= b\<close> on numbers: false as soon as one side is NaN.\<close>

fun js_ge :: "jsnum \<Rightarrow> jsnum \<Rightarrow> bool" where
  "js_ge NaN b = False"
| "js_ge a NaN = False"
| "js_ge PosInf b = True"
| "js_ge a NegInf = True"
| "js_ge NegInf b = False"
| "js_ge a PosInf = False"
| "js_ge (Fin a) (Fin b) = (b \<le> a)"

text \<open>\<^verbatim>\<open>Math.max(a, b)\<close> on numbers: NaN if either is NaN, otherwise the larger.\<close>

definition Math_max :: "jsnum \<Rightarrow> jsnum \<Rightarrow> jsnum" where
  "Math_max a b = (if a = NaN \<or> b = NaN then NaN else if js_ge a b then a else b)"

text \<open>Reading a property: \<^verbatim>\<open>undefined\<close> when the object does not have it.\<close>

definition get_prop :: "props \<Rightarrow> string \<Rightarrow> jsval" where
  "get_prop ps k = (case ps k of None \<Rightarrow> JUndefined | Some v \<Rightarrow> v)"

text \<open>
  \<^verbatim>\<open>Object.assign(target, ...sources)\<close> copies the own enumerable properties of each
  source in turn onto the target, replacing what is there under the same name.
\<close>

definition Object_assign :: "props \<Rightarrow> props list \<Rightarrow> props" where
  "Object_assign target sources = foldl (++) target sources"

section \<open>The runtime and the required modules\<close>

text \<open>
  What \<^verbatim>\<open>lib/pool.js\<close> reads from the process when it is loaded, and the two conversions
  of the language that are not spelled out here: the number a string stands for, and the
  number an object converts to.
\<close>

record runtime =
  cpus_length :: nat
  forkOpts_obj :: jsval
  worker_path :: string
  StringToNumber :: "string \<Rightarrow> jsnum"
  ObjectToNumber :: "ref \<Rightarrow> jsnum"

text \<open>The conversion \<^verbatim>\<open>Math.max\<close> applies to each argument.\<close>

fun ToNumber :: "runtime \<Rightarrow> jsval \<Rightarrow> jsnum" where
  "ToNumber rt JUndefined = NaN"
| "ToNumber rt JNull = Fin 0"
| "ToNumber rt (JBool b) = (if b then Fin 1 else Fin 0)"
| "ToNumber rt (JNumber n) = n"
| "ToNumber rt (JString s) = StringToNumber rt s"
| "ToNumber rt (JObject r) = ObjectToNumber rt r"

text \<open>
  Errors. \<open>InvalidArgumentType\<close> is modelled from the spec: \<^verbatim>\<open>createInvalidArgumentTypeError\<close>
  of \<^verbatim>\<open>lib/errors.js\<close> is not among the sources; the spec gives it a kind and has it carry
  the offending parameter's name and the expected type. \<open>TypeError\<close> is what a
  \<^verbatim>\<open>WeakMap\<close> throws for a key that is not an object. \<open>Thrown\<close> is whatever a required
  module throws or rejects with.
\<close>

datatype exn =
    InvalidArgumentType string string string
  | TypeError string
  | Thrown jsval

text \<open>
  Modelled from the spec: \<^verbatim>\<open>createInvalidArgumentTypeError(message, argument, expected)\<close>,
  whose source is missing, builds the error of kind \<open>InvalidArgumentType\<close> that carries its
  three arguments.
\<close>

definition createInvalidArgumentTypeError :: "string \<Rightarrow> string \<Rightarrow> string \<Rightarrow> exn" where
  "createInvalidArgumentTypeError message argument expected =
     InvalidArgumentType message argument expected"

text \<open>
  The pool object that \<^verbatim>\<open>workerpool.pool\<close> returns, as its three methods. A promise is read
  at its settlement: \<open>Inl\<close> is a rejection, \<open>Inr\<close> the value it resolves to.
\<close>

record Pool =
  exec :: "string \<Rightarrow> jsval list \<Rightarrow> exn + jsval"
  pool_stats :: jsval
  pool_terminate :: "jsval \<Rightarrow> exn + jsval"

text \<open>
  The required modules: \<^verbatim>\<open>serialize-javascript\<close> (called with the fixed options
  \<^verbatim>\<open>{unsafe: true, ignoreFunction: true}\<close>; it reads the object it is given from the
  store and may throw), \<^verbatim>\<open>workerpool\<close> and \<^verbatim>\<open>./serializer\<close>.
\<close>

record deps =
  serializeJavascript :: "props list \<Rightarrow> jsval \<Rightarrow> exn + string"
  workerpool_pool :: "string \<Rightarrow> props \<Rightarrow> Pool"
  deserialize :: "jsval \<Rightarrow> exn + jsval"

section \<open>The state\<close>

text \<open>
  \<open>heap\<close> is the store of objects: a reference is an index into it, and a new object takes
  the next index. \<open>optionsCache\<close> is the module's variable of that name, a \<^verbatim>\<open>WeakMap\<close>
  from object references to strings, kept as the list of its entries and read by lookup
  only. That a \<^verbatim>\<open>WeakMap\<close> lets go of an object nobody else holds cannot be observed: such
  an object is never looked up again. The remaining fields record, in order, the calls
  made to the required modules, so that a theorem can say how often one was made.

  The \<^verbatim>\<open>debug(...)\<close> calls of the module only print a diagnostic line; they are left out.
\<close>

record world =
  heap :: "props list"
  optionsCache :: "(ref \<times> string) list"
  serialize_calls :: "jsval list"
  pool_calls :: "(string \<times> props) list"
  exec_calls :: "(string \<times> jsval list) list"
  deserialize_calls :: "jsval list"
  stats_calls :: nat
  terminate_calls :: "jsval list"

definition alloc :: "props \<Rightarrow> world \<Rightarrow> ref \<times> world" where
  "alloc ps w = (length (heap w), w\<lparr>heap := heap w @ [ps]\<rparr>)"

text \<open>
  The three operations of a \<^verbatim>\<open>WeakMap\<close> that the module uses. Only an object can be a
  key: \<^verbatim>\<open>has\<close> and \<^verbatim>\<open>get\<close> answer false and \<^verbatim>\<open>undefined\<close> for anything else, and
  \<^verbatim>\<open>set\<close> throws.
\<close>

definition WeakMap_has :: "(ref \<times> string) list \<Rightarrow> jsval \<Rightarrow> bool" where
  "WeakMap_has c key = (case key of JObject r \<Rightarrow> map_of c r \<noteq> None | _ \<Rightarrow> False)"

definition WeakMap_get :: "(ref \<times> string) list \<Rightarrow> jsval \<Rightarrow> jsval" where
  "WeakMap_get c key =
     (case key of
        JObject r \<Rightarrow> (case map_of c r of None \<Rightarrow> JUndefined | Some s \<Rightarrow> JString s)
      | _ \<Rightarrow> JUndefined)"

definition WeakMap_set :: "(ref \<times> string) list \<Rightarrow> jsval \<Rightarrow> string \<Rightarrow> exn + (ref \<times> string) list" where
  "WeakMap_set c key s =
     (case key of
        JObject r \<Rightarrow> Inr (AList.update r s c)
      | _ \<Rightarrow> Inl (TypeError ''Invalid value used as weak map key''))"

section \<open>The module \<^verbatim>\<open>lib/pool.js\<close>\<close>

definition CPU_COUNT :: "runtime \<Rightarrow> nat" where
  "CPU_COUNT rt = cpus_length rt"

definition DEFAULT_MAX_WORKERS :: "runtime \<Rightarrow> jsnum" where
  "DEFAULT_MAX_WORKERS rt = Fin (real (CPU_COUNT rt) - 1)"

definition WORKER_PATH :: "runtime \<Rightarrow> string" where
  "WORKER_PATH rt = worker_path rt"

definition WORKER_POOL_DEFAULT_OPTS :: "runtime \<Rightarrow> props" where
  "WORKER_POOL_DEFAULT_OPTS rt =
     [''workerType'' \<mapsto> JString ''process'',
      ''forkOpts'' \<mapsto> forkOpts_obj rt,
      ''maxWorkers'' \<mapsto> JNumber (DEFAULT_MAX_WORKERS rt)]"

text \<open>
  An instance of the class: \<^verbatim>\<open>this.options\<close> and \<^verbatim>\<open>this._pool\<close>. The options object
  is kept by its properties, as is the configuration the constructor is given: the
  constructor only reads the one and builds the other, and nothing in the module looks
  at the identity of either.
\<close>

record WorkerPool =
  options :: props
  pool :: Pool

text \<open>
  The constructor. Its argument is the caller's configuration object, given by its
  properties, or \<open>None\<close> when the caller passes nothing, in which case the parameter takes
  its default.
\<close>

definition WorkerPool_new ::
  "deps \<Rightarrow> runtime \<Rightarrow> props option \<Rightarrow> world \<Rightarrow> WorkerPool \<times> world" where
  "WorkerPool_new d rt arg w =
     (let opts = (case arg of None \<Rightarrow> WORKER_POOL_DEFAULT_OPTS rt | Some ps \<Rightarrow> ps);
          maxWorkers = Math_max (Fin 1) (ToNumber rt (get_prop opts ''maxWorkers''));
          this_options =
            Object_assign Map.empty [opts, [''maxWorkers'' \<mapsto> JNumber maxWorkers]]
      in (\<lparr>options = this_options,
           pool = workerpool_pool d (WORKER_PATH rt) this_options\<rparr>,
          w\<lparr>pool_calls := pool_calls w @ [(WORKER_PATH rt, this_options)]\<rparr>))"

text \<open>\<^verbatim>\<open>static create(...args)\<close>: the constructor on the arguments given, if any.\<close>

definition create ::
  "deps \<Rightarrow> runtime \<Rightarrow> props option list \<Rightarrow> world \<Rightarrow> WorkerPool \<times> world" where
  "create d rt args w =
     WorkerPool_new d rt (case args of [] \<Rightarrow> None | a # rest \<Rightarrow> a) w"

text \<open>
  \<^verbatim>\<open>static serializeOptions(opts = {})\<close>. The default is a new empty object. On a miss
  the serializer is called; if it throws, or if the key is refused, nothing is stored.
\<close>

definition serializeOptions :: "deps \<Rightarrow> jsval \<Rightarrow> world \<Rightarrow> (exn + jsval) \<times> world" where
  "serializeOptions d arg w =
     (let (opts, w1) =
            (if arg = JUndefined
             then (let (r, w') = alloc Map.empty w in (JObject r, w'))
             else (arg, w))
      in if \<not> WeakMap_has (optionsCache w1) opts then
           (let w2 = w1\<lparr>serialize_calls := serialize_calls w1 @ [opts]\<rparr>
            in case serializeJavascript d (heap w2) opts of
                 Inl e \<Rightarrow> (Inl e, w2)
               | Inr serialized \<Rightarrow>
                   (case WeakMap_set (optionsCache w2) opts serialized of
                      Inl e \<Rightarrow> (Inl e, w2)
                    | Inr c \<Rightarrow>
                        (let w3 = w2\<lparr>optionsCache := c\<rparr>
                         in (Inr (WeakMap_get (optionsCache w3) opts), w3))))
         else (Inr (WeakMap_get (optionsCache w1) opts), w1))"

text \<open>\<^verbatim>\<open>static resetOptionsCache()\<close>: the variable gets a new, empty map.\<close>

definition resetOptionsCache :: "world \<Rightarrow> world" where
  "resetOptionsCache w = w\<lparr>optionsCache := []\<rparr>"

text \<open>
  \<^verbatim>\<open>async run(filepath, options = {})\<close>. The default of \<^verbatim>\<open>options\<close> is evaluated
  before the body, so also when the filepath is then refused. The function is followed
  from the call to the settlement of the promise it returns; what other calls do while it
  waits for the executor is not part of it.
\<close>

definition run ::
  "deps \<Rightarrow> WorkerPool \<Rightarrow> jsval \<Rightarrow> jsval \<Rightarrow> world \<Rightarrow> (exn + jsval) \<times> world" where
  "run d this filepath arg w =
     (let (opts, w0) =
            (if arg = JUndefined
             then (let (r, w') = alloc Map.empty w in (JObject r, w'))
             else (arg, w))
      in if \<not> truthy filepath \<or> typeof filepath \<noteq> ''string'' then
           (Inl (createInvalidArgumentTypeError
                   ''Expected a non-empty filepath'' ''filepath'' ''string''), w0)
         else
           (case serializeOptions d opts w0 of
              (Inl e, w1) \<Rightarrow> (Inl e, w1)
            | (Inr serializedOptions, w1) \<Rightarrow>
                (let w2 = w1\<lparr>exec_calls :=
                              exec_calls w1 @ [(''run'', [filepath, serializedOptions])]\<rparr>
                 in case exec (pool this) ''run'' [filepath, serializedOptions] of
                      Inl e \<Rightarrow> (Inl e, w2)
                    | Inr result \<Rightarrow>
                        (deserialize d result,
                         w2\<lparr>deserialize_calls := deserialize_calls w2 @ [result]\<rparr>))))"

text \<open>\<^verbatim>\<open>stats()\<close> and \<^verbatim>\<open>async terminate(force = false)\<close>.\<close>

definition stats :: "WorkerPool \<Rightarrow> world \<Rightarrow> jsval \<times> world" where
  "stats this w = (pool_stats (pool this), w\<lparr>stats_calls := stats_calls w + 1\<rparr>)"

definition terminate :: "WorkerPool \<Rightarrow> jsval \<Rightarrow> world \<Rightarrow> (exn + jsval) \<times> world" where
  "terminate this arg w =
     (let force = (if arg = JUndefined then JBool False else arg)
      in (pool_terminate (pool this) force,
          w\<lparr>terminate_calls := terminate_calls w @ [force]\<rparr>))"

section \<open>Well-formed states\<close>

text \<open>
  Every key of the cache is an object that exists. A program cannot break this: a
  reference is obtained only from an object that was created.
\<close>

definition cache_wf :: "world \<Rightarrow> bool" where
  "cache_wf w = list_all (\<lambda>(r, s). r < length (heap w)) (optionsCache w)"

section \<open>The doubles of the unit test\<close>

text \<open>
  \<^verbatim>\<open>test/node-unit/pool.spec.js\<close> replaces the required modules by stubs: a pool whose
  \<^verbatim>\<open>exec\<close> resolves to the object \<^verbatim>\<open>result\<close>, whose \<^verbatim>\<open>stats\<close> returns the object
  \<^verbatim>\<open>stats\<close> and whose \<^verbatim>\<open>terminate\<close> resolves; a \<^verbatim>\<open>deserialize\<close> that returns
  \<^verbatim>\<open>undefined\<close>. The same values serve here as the concrete inputs of the examples. The
  store holds, in this order: \<^verbatim>\<open>stats\<close>, \<^verbatim>\<open>result\<close>, the empty array of its events, the
  configuration \<^verbatim>\<open>{foo: 'bar'}\<close>, the fork options and an empty argument array.

  The serializer of the test is the real one. Its stand-in here knows the property
  \<^verbatim>\<open>foo\<close> only, which is all the examples serialize.
\<close>

definition test_stats :: props where
  "test_stats =
     [''totalWorkers'' \<mapsto> JNumber (Fin 10), ''busyWorkers'' \<mapsto> JNumber (Fin 8),
      ''idleWorkers'' \<mapsto> JNumber (Fin 2), ''pendingTasks'' \<mapsto> JNumber (Fin 3)]"

definition test_result :: props where
  "test_result = [''failures'' \<mapsto> JNumber (Fin 0), ''events'' \<mapsto> JObject 2]"

definition test_pool :: Pool where
  "test_pool =
     \<lparr>exec = (\<lambda>name args. Inr (JObject 1)),
      pool_stats = JObject 0,
      pool_terminate = (\<lambda>force. Inr JUndefined)\<rparr>"

definition test_serialize :: "props list \<Rightarrow> jsval \<Rightarrow> exn + string" where
  "test_serialize h v =
     (case v of
        JObject r \<Rightarrow>
          (if r < length h then
             (case (h ! r) ''foo'' of
                Some (JString s) \<Rightarrow> Inr (''{\"foo\":\"'' @ s @ ''\"}'')
              | _ \<Rightarrow> Inr ''{}'')
           else Inr ''{}'')
      | _ \<Rightarrow> Inr ''null'')"

definition test_deps :: deps where
  "test_deps =
     \<lparr>serializeJavascript = test_serialize,
      workerpool_pool = (\<lambda>path opts. test_pool),
      deserialize = (\<lambda>raw. Inr JUndefined)\<rparr>"

text \<open>The same modules with a serializer that throws.\<close>

definition failing_deps :: deps where
  "failing_deps =
     test_deps\<lparr>serializeJavascript := (\<lambda>h v. Inl (Thrown (JString ''cannot serialize'')))\<rparr>"

text \<open>A host with eight cores, none of whose strings or objects stands for a number.\<close>

definition test_runtime :: runtime where
  "test_runtime =
     \<lparr>cpus_length = 8,
      forkOpts_obj = JObject 4,
      worker_path = ''lib/worker.js'',
      StringToNumber = (\<lambda>s. NaN),
      ObjectToNumber = (\<lambda>r. NaN)\<rparr>"

definition test_world :: world where
  "test_world =
     \<lparr>heap = [test_stats, test_result, Map.empty, [''foo'' \<mapsto> JString ''bar''],
              [''execArgv'' \<mapsto> JObject 5], Map.empty],
      optionsCache = [],
      serialize_calls = [],
      pool_calls = [],
      exec_calls = [],
      deserialize_calls = [],
      stats_calls = 0,
      terminate_calls = []\<rparr>"

text \<open>\<^verbatim>\<open>workerPool = WorkerPool.create()\<close>, as the test builds it before each case.\<close>

definition test_workerPool :: WorkerPool where
  "test_workerPool = fst (create test_deps test_runtime [] test_world)"

text \<open>
  The state after \<^verbatim>\<open>serializeOptions({foo: 'bar'})\<close>: the cache holds the entry of that
  object.
\<close>

definition cached_world :: world where
  "cached_world =
     test_world\<lparr>optionsCache := [(3, ''{\"foo\":\"bar\"}'')], serialize_calls := [JObject 3]\<rparr>"

section \<open>The constructor\<close>

lemma Math_max_one_Fin: "Math_max (Fin 1) (Fin x) = Fin (max 1 x)"
  by (simp add: Math_max_def max_def)

lemma Math_max_one_cases: "Math_max (Fin 1) x = NaN \<or> js_ge (Math_max (Fin 1) x) (Fin 1)"
  by (cases x) (simp_all add: Math_max_def)

lemma options_new:
  "options (fst (WorkerPool_new d rt arg w)) =
     (case arg of None \<Rightarrow> WORKER_POOL_DEFAULT_OPTS rt | Some ps \<Rightarrow> ps)
       (''maxWorkers'' \<mapsto> JNumber (Math_max (Fin 1) (ToNumber rt
          (get_prop (case arg of None \<Rightarrow> WORKER_POOL_DEFAULT_OPTS rt | Some ps \<Rightarrow> ps)
             ''maxWorkers''))))"
  by (simp add: WorkerPool_new_def Let_def Object_assign_def)

text \<open>
  What the constructor does guarantee: a number the caller supplies is raised to 1 when it
  is below, whatever the caller supplies the result is at least 1 or is NaN, and with no
  argument it is at least 1.
\<close>

lemma supplied_number_clamped:
  "ps ''maxWorkers'' = Some (JNumber (Fin x)) \<Longrightarrow>
   get_prop (options (fst (WorkerPool_new d rt (Some ps) w))) ''maxWorkers''
     = JNumber (Fin (max 1 x))"
  by (simp add: options_new get_prop_def Math_max_one_Fin)

lemma supplied_at_least_one_or_NaN:
  "\<exists>n. get_prop (options (fst (WorkerPool_new d rt (Some ps) w))) ''maxWorkers'' = JNumber n
       \<and> (n = NaN \<or> js_ge n (Fin 1))"
  by (simp add: options_new get_prop_def Math_max_one_cases)

lemma create_no_arguments:
  "\<exists>n. get_prop (options (fst (create d rt [] w))) ''maxWorkers'' = JNumber n
       \<and> js_ge n (Fin 1)"
  by (simp add: create_def options_new get_prop_def WORKER_POOL_DEFAULT_OPTS_def
      DEFAULT_MAX_WORKERS_def Math_max_one_Fin)

text \<open>
  C1. The claim: for every configuration supplied to construction, also one that omits
  \<^verbatim>\<open>maxWorkers\<close>, the resolved \<^verbatim>\<open>maxWorkers\<close> is at least 1. The code at
  \<^verbatim>\<open>WorkerPool.create({foo: 'bar'})\<close>, the call of the unit test: the property read is
  \<^verbatim>\<open>undefined\<close>, \<^verbatim>\<open>Math.max(1, undefined)\<close> is NaN, and NaN is not at least 1.
\<close>

theorem create_omitted_maxWorkers_NaN:
  "get_prop (options (fst (create d rt [Some [''foo'' \<mapsto> JString ''bar'']] w))) ''maxWorkers''
     = JNumber NaN
   \<and> \<not> js_ge NaN (Fin 1)"
  by (simp add: create_def options_new get_prop_def Math_max_def)

text \<open>
  C7. Construction with no argument resolves \<^verbatim>\<open>maxWorkers\<close> to the number of cores
  minus one, and to 1 when that is less; on a host with 8 cores it is 7.
\<close>

theorem default_maxWorkers:
  "get_prop (options (fst (WorkerPool_new d rt None w))) ''maxWorkers''
     = JNumber (Fin (max 1 (real (cpus_length rt) - 1)))
   \<and> get_prop (options (fst (WorkerPool_new d (rt\<lparr>cpus_length := 8\<rparr>) None w))) ''maxWorkers''
     = JNumber (Fin 7)"
  by (simp add: options_new get_prop_def WORKER_POOL_DEFAULT_OPTS_def
      DEFAULT_MAX_WORKERS_def CPU_COUNT_def Math_max_one_Fin)

theorem default_maxWorkers_witness:
  "get_prop (options (fst (WorkerPool_new test_deps test_runtime None test_world))) ''maxWorkers''
     = JNumber (Fin 7)
   \<and> get_prop (options (fst (WorkerPool_new test_deps (test_runtime\<lparr>cpus_length := 1\<rparr>) None
        test_world))) ''maxWorkers''
     = JNumber (Fin 1)"
  using default_maxWorkers [of test_deps test_runtime test_world]
    default_maxWorkers [of test_deps "test_runtime\<lparr>cpus_length := 1\<rparr>" test_world]
  by (simp add: test_runtime_def)

text \<open>
  C10. When the caller supplies a configuration, the resolved options are the caller's
  properties with \<^verbatim>\<open>maxWorkers\<close> set to the resolved value and nothing else changed: the
  defaults are not merged in, so \<^verbatim>\<open>workerType\<close> and \<^verbatim>\<open>forkOpts\<close> are absent when the
  caller did not give them.
\<close>

theorem supplied_options_not_merged:
  "options (fst (WorkerPool_new d rt (Some ps) w)) =
     ps(''maxWorkers'' \<mapsto>
          JNumber (Math_max (Fin 1) (ToNumber rt (get_prop ps ''maxWorkers''))))
   \<and> (ps ''workerType'' = None \<longrightarrow>
        options (fst (WorkerPool_new d rt (Some ps) w)) ''workerType'' = None)
   \<and> (ps ''forkOpts'' = None \<longrightarrow>
        options (fst (WorkerPool_new d rt (Some ps) w)) ''forkOpts'' = None)"
  by (simp add: options_new)

theorem supplied_options_not_merged_witness:
  "options (fst (WorkerPool_new test_deps test_runtime
      (Some [''foo'' \<mapsto> JString ''bar'', ''maxWorkers'' \<mapsto> JNumber (Fin 0)]) test_world))
     = [''foo'' \<mapsto> JString ''bar'', ''maxWorkers'' \<mapsto> JNumber (Fin 1)]
   \<and> options (fst (WorkerPool_new test_deps test_runtime
      (Some [''foo'' \<mapsto> JString ''bar'', ''maxWorkers'' \<mapsto> JNumber (Fin 0)]) test_world))
       ''workerType'' = None
   \<and> WORKER_POOL_DEFAULT_OPTS test_runtime ''workerType'' = Some (JString ''process'')"
  using supplied_options_not_merged [of test_deps test_runtime
      "[''foo'' \<mapsto> JString ''bar'', ''maxWorkers'' \<mapsto> JNumber (Fin 0)]" test_world]
  by (simp add: get_prop_def Math_max_def WORKER_POOL_DEFAULT_OPTS_def)

section \<open>The options cache\<close>

lemma serializeOptions_hit:
  "map_of (optionsCache w) r = Some s \<Longrightarrow>
   serializeOptions d (JObject r) w = (Inr (JString s), w)"
  by (simp add: serializeOptions_def WeakMap_has_def WeakMap_get_def)

lemma serializeOptions_miss:
  "map_of (optionsCache w) r = None \<Longrightarrow>
   serializeJavascript d (heap w) (JObject r) = Inr s \<Longrightarrow>
   serializeOptions d (JObject r) w =
     (Inr (JString s),
      w\<lparr>serialize_calls := serialize_calls w @ [JObject r],
        optionsCache := AList.update r s (optionsCache w)\<rparr>)"
  by (simp add: serializeOptions_def WeakMap_has_def WeakMap_get_def WeakMap_set_def
      Let_def update_conv')

lemma serializeOptions_throws:
  "map_of (optionsCache w) r = None \<Longrightarrow>
   serializeJavascript d (heap w) (JObject r) = Inl e \<Longrightarrow>
   serializeOptions d (JObject r) w =
     (Inl e, w\<lparr>serialize_calls := serialize_calls w @ [JObject r]\<rparr>)"
  by (simp add: serializeOptions_def WeakMap_has_def Let_def)

lemma update_fresh: "k \<notin> fst ` set al \<Longrightarrow> AList.update k v al = al @ [(k, v)]"
  by (induction al) auto

lemma cache_wf_fresh: "cache_wf w \<Longrightarrow> length (heap w) \<notin> fst ` set (optionsCache w)"
  by (auto simp: cache_wf_def list_all_iff)

lemma cache_wf_fresh_map_of:
  "cache_wf w \<Longrightarrow> map_of (optionsCache w) (length (heap w)) = None"
  using cache_wf_fresh [of w] by (simp add: map_of_eq_None_iff)

lemma serializeOptions_calls_on_miss:
  "map_of (optionsCache w) r = None \<Longrightarrow>
   serialize_calls (snd (serializeOptions d (JObject r) w)) = serialize_calls w @ [JObject r]"
  by (simp add: serializeOptions_def WeakMap_has_def WeakMap_set_def Let_def split: sum.split)

text \<open>
  The key is the reference, not the content: after one object was serialized, another
  object is serialized on its own, whatever the two hold.
\<close>

lemma distinct_references_serialized_apart:
  assumes "r' \<noteq> r"
    and "map_of (optionsCache w) r = None" and "map_of (optionsCache w) r' = None"
    and "serializeJavascript d (heap w) (JObject r) = Inr s"
  shows "serialize_calls
           (snd (serializeOptions d (JObject r') (snd (serializeOptions d (JObject r) w))))
         = serialize_calls w @ [JObject r, JObject r']"
proof -
  let ?w1 = "w\<lparr>serialize_calls := serialize_calls w @ [JObject r],
                 optionsCache := AList.update r s (optionsCache w)\<rparr>"
  have first: "serializeOptions d (JObject r) w = (Inr (JString s), ?w1)"
    using assms(2,4) by (rule serializeOptions_miss)
  have "map_of (optionsCache ?w1) r' = None"
    using assms(1,3) by (simp add: update_conv')
  then have "serialize_calls (snd (serializeOptions d (JObject r') ?w1))
      = serialize_calls ?w1 @ [JObject r']"
    by (rule serializeOptions_calls_on_miss)
  then show ?thesis
    by (simp add: first)
qed

text \<open>The operations on the cache keep the state well formed.\<close>

lemma list_all_update:
  "list_all P al \<Longrightarrow> P (k, v) \<Longrightarrow> list_all P (AList.update k v al)"
  by (induction al) auto

lemma cache_wf_reset: "cache_wf (resetOptionsCache w)"
  by (simp add: cache_wf_def resetOptionsCache_def)

lemma cache_wf_serializeOptions:
  assumes "cache_wf w" and "r < length (heap w)"
  shows "cache_wf (snd (serializeOptions d (JObject r) w))"
proof -
  have "list_all (\<lambda>(r, s). r < length (heap w)) (AList.update r s (optionsCache w))" for s
    using assms by (intro list_all_update) (simp_all add: cache_wf_def)
  then show ?thesis
    using assms(1)
    by (auto simp: serializeOptions_def WeakMap_has_def WeakMap_set_def Let_def cache_wf_def
        split: sum.split)
qed

text \<open>
  C3. For a configuration object that the cache does not hold yet and that the serializer
  can serialize, two calls of \<^verbatim>\<open>serializeOptions\<close> with this same reference return the
  same string, and the serializer is called once over the two: the second call finds the
  entry under the reference.
\<close>

theorem serializeOptions_twice_serializes_once:
  assumes "map_of (optionsCache w) r = None"
    and "serializeJavascript d (heap w) (JObject r) = Inr s"
  shows "let (v1, w1) = serializeOptions d (JObject r) w;
             (v2, w2) = serializeOptions d (JObject r) w1
         in v1 = Inr (JString s) \<and> v2 = v1 \<and>
            serialize_calls w2 = serialize_calls w @ [JObject r]"
proof -
  let ?w1 = "w\<lparr>serialize_calls := serialize_calls w @ [JObject r],
                 optionsCache := AList.update r s (optionsCache w)\<rparr>"
  have first: "serializeOptions d (JObject r) w = (Inr (JString s), ?w1)"
    using assms by (rule serializeOptions_miss)
  have "map_of (optionsCache ?w1) r = Some s"
    by (simp add: update_conv')
  then have second: "serializeOptions d (JObject r) ?w1 = (Inr (JString s), ?w1)"
    by (rule serializeOptions_hit)
  show ?thesis
    by (simp add: first second)
qed

theorem serializeOptions_twice_serializes_once_witness:
  "(let (v1, w1) = serializeOptions test_deps (JObject 3) test_world;
        (v2, w2) = serializeOptions test_deps (JObject 3) w1
    in v1 = Inr (JString ''{\"foo\":\"bar\"}'') \<and> v2 = v1 \<and> serialize_calls w2 = [JObject 3])"
  using serializeOptions_twice_serializes_once [of test_world 3 test_deps "''{\"foo\":\"bar\"}''"]
  by (simp add: test_world_def test_deps_def test_serialize_def)

text \<open>
  C6. \<^verbatim>\<open>resetOptionsCache()\<close> leaves the cache empty, and \<^verbatim>\<open>serializeOptions\<close> on any
  object after it, cached before or not, calls the serializer again and returns what a
  first call returns: the serializer's string, or its error.
\<close>

theorem resetOptionsCache_forgets:
  "optionsCache (resetOptionsCache w) = []
   \<and> serialize_calls (snd (serializeOptions d (JObject r) (resetOptionsCache w)))
       = serialize_calls w @ [JObject r]
   \<and> fst (serializeOptions d (JObject r) (resetOptionsCache w))
       = (case serializeJavascript d (heap w) (JObject r) of
            Inl e \<Rightarrow> Inl e | Inr s \<Rightarrow> Inr (JString s))"
  by (simp add: resetOptionsCache_def serializeOptions_def WeakMap_has_def WeakMap_get_def
      WeakMap_set_def Let_def split: sum.split)

theorem resetOptionsCache_forgets_witness:
  "serializeOptions test_deps (JObject 3) (test_world\<lparr>optionsCache := [(3, ''old'')]\<rparr>)
     = (Inr (JString ''old''), test_world\<lparr>optionsCache := [(3, ''old'')]\<rparr>)
   \<and> serialize_calls (snd (serializeOptions test_deps (JObject 3)
        (resetOptionsCache (test_world\<lparr>optionsCache := [(3, ''old'')]\<rparr>)))) = [JObject 3]
   \<and> fst (serializeOptions test_deps (JObject 3)
        (resetOptionsCache (test_world\<lparr>optionsCache := [(3, ''old'')]\<rparr>)))
       = Inr (JString ''{\"foo\":\"bar\"}'')"
  using resetOptionsCache_forgets [of "test_world\<lparr>optionsCache := [(3, ''old'')]\<rparr>"
      test_deps 3]
  by (simp add: serializeOptions_hit test_world_def test_deps_def test_serialize_def)

section \<open>Running a file\<close>

lemma run_rejects:
  "\<not> truthy filepath \<or> typeof filepath \<noteq> ''string'' \<Longrightarrow>
   run d this filepath arg w =
     (Inl (InvalidArgumentType ''Expected a non-empty filepath'' ''filepath'' ''string''),
      if arg = JUndefined then w\<lparr>heap := heap w @ [Map.empty]\<rparr> else w)"
  by (auto simp: run_def alloc_def createInvalidArgumentTypeError_def)

lemma run_object:
  assumes "fp \<noteq> []"
  shows "run d this (JString fp) (JObject r) w =
     (case serializeOptions d (JObject r) w of
        (Inl e, w1) \<Rightarrow> (Inl e, w1)
      | (Inr so, w1) \<Rightarrow>
          (let w2 = w1\<lparr>exec_calls := exec_calls w1 @ [(''run'', [JString fp, so])]\<rparr>
           in case exec (pool this) ''run'' [JString fp, so] of
                Inl e \<Rightarrow> (Inl e, w2)
              | Inr result \<Rightarrow>
                  (deserialize d result,
                   w2\<lparr>deserialize_calls := deserialize_calls w2 @ [result]\<rparr>)))"
  using assms by (simp add: run_def)

text \<open>
  C2. When the filepath is missing, is the empty string or is not a string, \<^verbatim>\<open>run\<close>
  rejects, whatever the configuration, with the error of kind \<open>InvalidArgumentType\<close> that
  names the parameter \<^verbatim>\<open>filepath\<close> and the expected type \<^verbatim>\<open>string\<close>; the executor's
  \<^verbatim>\<open>exec\<close> is not called, nor is the serializer, and the cache is as it was.
\<close>

theorem run_rejects_invalid_filepath:
  assumes "filepath = JUndefined \<or> filepath = JString [] \<or> typeof filepath \<noteq> ''string''"
  shows "let (v, w1) = run d this filepath arg w
         in v = Inl (InvalidArgumentType ''Expected a non-empty filepath''
                       ''filepath'' ''string'')
            \<and> exec_calls w1 = exec_calls w
            \<and> serialize_calls w1 = serialize_calls w
            \<and> optionsCache w1 = optionsCache w"
proof -
  have "\<not> truthy filepath \<or> typeof filepath \<noteq> ''string''"
    using assms by auto
  then show ?thesis
    by (simp add: run_rejects)
qed

theorem run_rejects_invalid_filepath_witness:
  "typeof (JNumber (Fin 123)) \<noteq> ''string''
   \<and> run test_deps test_workerPool (JNumber (Fin 123)) JUndefined test_world
       = (Inl (InvalidArgumentType ''Expected a non-empty filepath'' ''filepath'' ''string''),
          test_world\<lparr>heap := heap test_world @ [Map.empty]\<rparr>)
   \<and> exec_calls (snd (run test_deps test_workerPool (JNumber (Fin 123)) JUndefined test_world))
       = []"
  using run_rejects_invalid_filepath
    [of "JNumber (Fin 123)" test_deps test_workerPool JUndefined test_world]
  by (simp add: run_rejects test_world_def split: prod.splits)

text \<open>
  C4. For a non-empty string filepath and a configuration object whose serialized form is
  \<open>s\<close> (cached, or produced now by the serializer), a call of \<^verbatim>\<open>run\<close> on which the
  executor resolves adds exactly one call to the executor's \<^verbatim>\<open>exec\<close>: the task
  \<^verbatim>\<open>"run"\<close> with the two arguments filepath and \<open>s\<close>. Its raw result is passed once to
  \<^verbatim>\<open>deserialize\<close>, and what that gives is the outcome of \<^verbatim>\<open>run\<close>. The example of the
  claim, \<^verbatim>\<open>run('file.js', {foo: 'bar'})\<close>, is the witness.
\<close>

theorem run_submits_one_task:
  assumes "fp \<noteq> []"
    and "map_of (optionsCache w) r = Some s \<or>
         (map_of (optionsCache w) r = None \<and>
          serializeJavascript d (heap w) (JObject r) = Inr s)"
    and "exec (pool this) ''run'' [JString fp, JString s] = Inr raw"
  shows "let (v, w1) = run d this (JString fp) (JObject r) w
         in exec_calls w1 = exec_calls w @ [(''run'', [JString fp, JString s])]
            \<and> deserialize_calls w1 = deserialize_calls w @ [raw]
            \<and> v = deserialize d raw"
  using assms(2)
proof
  assume "map_of (optionsCache w) r = Some s"
  then show ?thesis
    using assms(3) by (simp add: run_object [OF assms(1)] serializeOptions_hit)
next
  assume "map_of (optionsCache w) r = None \<and>
          serializeJavascript d (heap w) (JObject r) = Inr s"
  then show ?thesis
    using assms(3) by (simp add: run_object [OF assms(1)] serializeOptions_miss)
qed

theorem run_submits_one_task_witness:
  "run test_deps test_workerPool (JString ''file.js'') (JObject 3) test_world =
     (Inr JUndefined,
      test_world\<lparr>optionsCache := [(3, ''{\"foo\":\"bar\"}'')],
                 serialize_calls := [JObject 3],
                 exec_calls := [(''run'', [JString ''file.js'', JString ''{\"foo\":\"bar\"}''])],
                 deserialize_calls := [JObject 1]\<rparr>)"
  using run_submits_one_task
    [of "''file.js''" test_world 3 "''{\"foo\":\"bar\"}''" test_deps test_workerPool "JObject 1"]
  by (simp add: test_world_def test_deps_def test_serialize_def test_workerPool_def
      test_pool_def create_def WorkerPool_new_def Let_def run_def serializeOptions_def
      WeakMap_has_def WeakMap_get_def WeakMap_set_def)

text \<open>
  C5. When the serializer throws on a configuration object, \<^verbatim>\<open>serializeOptions\<close> and
  \<^verbatim>\<open>run\<close> end with that error and leave the state as it was, apart from the record of
  the serializer's call: the cache has no entry for the object, the executor is not
  called, and the next \<^verbatim>\<open>serializeOptions\<close> for the same reference calls the serializer
  again.
\<close>

theorem serializer_error_not_cached:
  assumes "map_of (optionsCache w) r = None"
    and "serializeJavascript d (heap w) (JObject r) = Inl e"
    and "fp \<noteq> []"
  shows "serializeOptions d (JObject r) w =
           (Inl e, w\<lparr>serialize_calls := serialize_calls w @ [JObject r]\<rparr>)
   \<and> run d this (JString fp) (JObject r) w =
           (Inl e, w\<lparr>serialize_calls := serialize_calls w @ [JObject r]\<rparr>)
   \<and> map_of (optionsCache (snd (serializeOptions d (JObject r) w))) r = None
   \<and> serialize_calls
       (snd (serializeOptions d (JObject r) (snd (serializeOptions d (JObject r) w))))
       = serialize_calls w @ [JObject r, JObject r]"
proof -
  let ?w1 = "w\<lparr>serialize_calls := serialize_calls w @ [JObject r]\<rparr>"
  have first: "serializeOptions d (JObject r) w = (Inl e, ?w1)"
    using assms(1,2) by (rule serializeOptions_throws)
  have "serializeOptions d (JObject r) ?w1 =
      (Inl e, ?w1\<lparr>serialize_calls := serialize_calls ?w1 @ [JObject r]\<rparr>)"
    using assms(1,2) by (intro serializeOptions_throws) simp_all
  then show ?thesis
    using assms(1) by (simp add: first run_object [OF assms(3)])
qed

theorem serializer_error_not_cached_witness:
  "serializeOptions failing_deps (JObject 3) test_world =
     (Inl (Thrown (JString ''cannot serialize'')), test_world\<lparr>serialize_calls := [JObject 3]\<rparr>)
   \<and> run failing_deps test_workerPool (JString ''file.js'') (JObject 3) test_world =
     (Inl (Thrown (JString ''cannot serialize'')), test_world\<lparr>serialize_calls := [JObject 3]\<rparr>)
   \<and> optionsCache (snd (serializeOptions failing_deps (JObject 3) test_world)) = []"
  using serializer_error_not_cached
    [of test_world 3 failing_deps "Thrown (JString ''cannot serialize'')" "''file.js''"
      test_workerPool]
  by (simp add: test_world_def failing_deps_def)

section \<open>An omitted configuration\<close>

lemma serializeOptions_default:
  assumes "cache_wf w"
  shows "serializeOptions d JUndefined w =
     (case serializeJavascript d (heap w @ [Map.empty]) (JObject (length (heap w))) of
        Inl e \<Rightarrow>
          (Inl e, w\<lparr>heap := heap w @ [Map.empty],
                     serialize_calls := serialize_calls w @ [JObject (length (heap w))]\<rparr>)
      | Inr s \<Rightarrow>
          (Inr (JString s),
           w\<lparr>heap := heap w @ [Map.empty],
             serialize_calls := serialize_calls w @ [JObject (length (heap w))],
             optionsCache := optionsCache w @ [(length (heap w), s)]\<rparr>))"
  using cache_wf_fresh [OF assms] cache_wf_fresh_map_of [OF assms]
  by (simp add: serializeOptions_def alloc_def WeakMap_has_def WeakMap_get_def WeakMap_set_def
      Let_def update_fresh map_add_def split: sum.split)

lemma run_default:
  assumes "cache_wf w" and "fp \<noteq> []"
  shows "run d this (JString fp) JUndefined w =
     (case serializeJavascript d (heap w @ [Map.empty]) (JObject (length (heap w))) of
        Inl e \<Rightarrow>
          (Inl e, w\<lparr>heap := heap w @ [Map.empty],
                     serialize_calls := serialize_calls w @ [JObject (length (heap w))]\<rparr>)
      | Inr s \<Rightarrow>
          (let w1 = w\<lparr>heap := heap w @ [Map.empty],
                      serialize_calls := serialize_calls w @ [JObject (length (heap w))],
                      optionsCache := optionsCache w @ [(length (heap w), s)],
                      exec_calls := exec_calls w @ [(''run'', [JString fp, JString s])]\<rparr>
           in case exec (pool this) ''run'' [JString fp, JString s] of
                Inl e \<Rightarrow> (Inl e, w1)
              | Inr result \<Rightarrow>
                  (deserialize d result,
                   w1\<lparr>deserialize_calls := deserialize_calls w @ [result]\<rparr>)))"
proof -
  let ?r = "length (heap w)"
  let ?w0 = "w\<lparr>heap := heap w @ [Map.empty]\<rparr>"
  have miss: "map_of (optionsCache ?w0) ?r = None"
    using cache_wf_fresh_map_of [OF assms(1)] by simp
  have fresh: "?r \<notin> fst ` set (optionsCache w)"
    by (rule cache_wf_fresh [OF assms(1)])
  show ?thesis
  proof (cases "serializeJavascript d (heap w @ [Map.empty]) (JObject ?r)")
    case (Inl e)
    then have "serializeOptions d (JObject ?r) ?w0 =
        (Inl e, ?w0\<lparr>serialize_calls := serialize_calls ?w0 @ [JObject ?r]\<rparr>)"
      using miss by (intro serializeOptions_throws) simp_all
    then show ?thesis
      using Inl assms(2) by (simp add: run_def alloc_def)
  next
    case (Inr s)
    then have "serializeOptions d (JObject ?r) ?w0 =
        (Inr (JString s), ?w0\<lparr>serialize_calls := serialize_calls ?w0 @ [JObject ?r],
                               optionsCache := AList.update ?r s (optionsCache ?w0)\<rparr>)"
      using miss by (intro serializeOptions_miss) simp_all
    then show ?thesis
      using Inr assms(2) fresh
      by (simp add: run_def alloc_def Let_def update_fresh split: sum.split)
  qed
qed

text \<open>
  C9. When the configuration is omitted, \<^verbatim>\<open>serializeOptions\<close> and \<^verbatim>\<open>run\<close> (with a
  non-empty string filepath) take a new empty object, whose reference no entry of the cache
  has. So the call never hits the cache: the serializer is called, on the new reference,
  and when it returns a string the cache has one more entry, for that reference. The state
  after the call is well formed again, so the same holds for the next such call. The
  example starts from a cache that holds the entry of \<^verbatim>\<open>{foo: 'bar'}\<close> and makes four
  such calls in a row, two of \<^verbatim>\<open>serializeOptions\<close> and two of \<^verbatim>\<open>run\<close>: each
  serializes a reference of its own.
\<close>

theorem omitted_configuration_is_fresh:
  assumes "cache_wf w" and "fp \<noteq> []"
  shows "map_of (optionsCache w) (length (heap w)) = None
   \<and> (let (v, w1) = serializeOptions d JUndefined w
      in serialize_calls w1 = serialize_calls w @ [JObject (length (heap w))]
         \<and> cache_wf w1
         \<and> (case serializeJavascript d (heap w @ [Map.empty]) (JObject (length (heap w))) of
              Inl e \<Rightarrow> v = Inl e \<and> optionsCache w1 = optionsCache w
            | Inr s \<Rightarrow> v = Inr (JString s)
                       \<and> optionsCache w1 = optionsCache w @ [(length (heap w), s)]))
   \<and> (let (v, w1) = run d this (JString fp) JUndefined w
      in serialize_calls w1 = serialize_calls w @ [JObject (length (heap w))]
         \<and> cache_wf w1
         \<and> (case serializeJavascript d (heap w @ [Map.empty]) (JObject (length (heap w))) of
              Inl e \<Rightarrow> v = Inl e \<and> optionsCache w1 = optionsCache w
            | Inr s \<Rightarrow> optionsCache w1 = optionsCache w @ [(length (heap w), s)]))"
proof (intro conjI)
  show "map_of (optionsCache w) (length (heap w)) = None"
    by (rule cache_wf_fresh_map_of [OF assms(1)])
next
  show "let (v, w1) = serializeOptions d JUndefined w
      in serialize_calls w1 = serialize_calls w @ [JObject (length (heap w))]
         \<and> cache_wf w1
         \<and> (case serializeJavascript d (heap w @ [Map.empty]) (JObject (length (heap w))) of
              Inl e \<Rightarrow> v = Inl e \<and> optionsCache w1 = optionsCache w
            | Inr s \<Rightarrow> v = Inr (JString s)
                       \<and> optionsCache w1 = optionsCache w @ [(length (heap w), s)])"
    using assms(1)
    by (auto simp: serializeOptions_default [OF assms(1)] cache_wf_def list_all_iff
        split: sum.split)
next
  show "let (v, w1) = run d this (JString fp) JUndefined w
      in serialize_calls w1 = serialize_calls w @ [JObject (length (heap w))]
         \<and> cache_wf w1
         \<and> (case serializeJavascript d (heap w @ [Map.empty]) (JObject (length (heap w))) of
              Inl e \<Rightarrow> v = Inl e \<and> optionsCache w1 = optionsCache w
            | Inr s \<Rightarrow> optionsCache w1 = optionsCache w @ [(length (heap w), s)])"
    using assms(1)
    by (auto simp: run_default [OF assms] Let_def cache_wf_def list_all_iff
        split: sum.split)
qed

theorem omitted_configuration_is_fresh_witness:
  "cache_wf cached_world
   \<and> serializeOptions test_deps (JObject 3) test_world
       = (Inr (JString ''{\"foo\":\"bar\"}''), cached_world)
   \<and> (let (v1, w1) = serializeOptions test_deps JUndefined cached_world;
           (v2, w2) = serializeOptions test_deps JUndefined w1;
           (v3, w3) = run test_deps test_workerPool (JString ''file.js'') JUndefined w2;
           (v4, w4) = run test_deps test_workerPool (JString ''file.js'') JUndefined w3
       in v1 = Inr (JString ''{}'') \<and> v2 = Inr (JString ''{}'')
          \<and> optionsCache w1 = [(3, ''{\"foo\":\"bar\"}''), (6, ''{}'')]
          \<and> serialize_calls w2 = [JObject 3, JObject 6, JObject 7]
          \<and> optionsCache w2 = [(3, ''{\"foo\":\"bar\"}''), (6, ''{}''), (7, ''{}'')]
          \<and> serialize_calls w4 = [JObject 3, JObject 6, JObject 7, JObject 8, JObject 9]
          \<and> optionsCache w4 =
               [(3, ''{\"foo\":\"bar\"}''), (6, ''{}''), (7, ''{}''), (8, ''{}''), (9, ''{}'')]
          \<and> exec_calls w4 =
               [(''run'', [JString ''file.js'', JString ''{}'']),
                (''run'', [JString ''file.js'', JString ''{}''])]
          \<and> cache_wf w4)"
proof -
  let ?d = test_deps and ?p = test_workerPool and ?f = "''file.js''"
  let ?foo = "''{\"foo\":\"bar\"}''"
  let ?w1 = "cached_world\<lparr>heap := heap cached_world @ [Map.empty],
               serialize_calls := [JObject 3, JObject 6],
               optionsCache := [(3, ?foo), (6, ''{}'')]\<rparr>"
  let ?w2 = "cached_world\<lparr>heap := heap cached_world @ [Map.empty, Map.empty],
               serialize_calls := [JObject 3, JObject 6, JObject 7],
               optionsCache := [(3, ?foo), (6, ''{}''), (7, ''{}'')]\<rparr>"
  let ?w3 = "cached_world\<lparr>heap := heap cached_world @ [Map.empty, Map.empty, Map.empty],
               serialize_calls := [JObject 3, JObject 6, JObject 7, JObject 8],
               optionsCache := [(3, ?foo), (6, ''{}''), (7, ''{}''), (8, ''{}'')],
               exec_calls := [(''run'', [JString ?f, JString ''{}''])],
               deserialize_calls := [JObject 1]\<rparr>"
  have wf0: "cache_wf cached_world"
    by (simp add: cache_wf_def cached_world_def test_world_def)
  have len0: "length (heap cached_world) = 6"
    by (simp add: cached_world_def test_world_def)
  have ser:
    "serializeJavascript ?d (heap cached_world @ [Map.empty]) (JObject 6) = Inr ''{}''"
    "serializeJavascript ?d (heap cached_world @ [Map.empty, Map.empty]) (JObject 7)
       = Inr ''{}''"
    "serializeJavascript ?d (heap cached_world @ [Map.empty, Map.empty, Map.empty]) (JObject 8)
       = Inr ''{}''"
    "serializeJavascript ?d (heap cached_world @ [Map.empty, Map.empty, Map.empty, Map.empty])
       (JObject 9) = Inr ''{}''"
    by (simp_all add: test_deps_def test_serialize_def len0 nth_append)
  have ex: "exec (pool ?p) name args = Inr (JObject 1)" for name args
    by (simp add: test_workerPool_def create_def WorkerPool_new_def Let_def test_deps_def
        test_pool_def)
  have de: "deserialize ?d raw = Inr JUndefined" for raw
    by (simp add: test_deps_def)
  have first: "serializeOptions ?d (JObject 3) test_world = (Inr (JString ?foo), cached_world)"
    by (simp add: serializeOptions_def WeakMap_has_def WeakMap_get_def WeakMap_set_def
        cached_world_def test_world_def test_deps_def test_serialize_def)
  have c0: "optionsCache cached_world = [(3, ?foo)]"
    and s0: "serialize_calls cached_world = [JObject 3]"
    and e0: "exec_calls cached_world = []" and d0: "deserialize_calls cached_world = []"
    by (simp_all add: cached_world_def test_world_def)
  have s1: "serializeOptions ?d JUndefined cached_world = (Inr (JString ''{}''), ?w1)"
    by (simp add: serializeOptions_default [OF wf0] ser len0 c0 s0)
  from omitted_configuration_is_fresh [of cached_world ?f ?d ?p] wf0
  have wf1: "cache_wf ?w1"
    by (simp add: s1)
  have s2: "serializeOptions ?d JUndefined ?w1 = (Inr (JString ''{}''), ?w2)"
    by (simp add: serializeOptions_default [OF wf1] ser len0)
  from omitted_configuration_is_fresh [of ?w1 ?f ?d ?p] wf1
  have wf2: "cache_wf ?w2"
    by (simp add: s2)
  have s3: "run ?d ?p (JString ?f) JUndefined ?w2 = (Inr JUndefined, ?w3)"
    by (simp add: run_default [OF wf2] ser ex de len0 e0 d0 Let_def)
  from omitted_configuration_is_fresh [of ?w2 ?f ?d ?p] wf2
  have wf3: "cache_wf ?w3"
    by (simp add: s3)
  from omitted_configuration_is_fresh [of ?w3 ?f ?d ?p] wf3
  have last: "let (v, w4) = run ?d ?p (JString ?f) JUndefined ?w3
      in serialize_calls w4 = [JObject 3, JObject 6, JObject 7, JObject 8, JObject 9]
         \<and> cache_wf w4
         \<and> optionsCache w4 = [(3, ?foo), (6, ''{}''), (7, ''{}''), (8, ''{}''), (9, ''{}'')]"
    by (simp add: ser len0 split: prod.splits)
  have e4: "exec_calls (snd (run ?d ?p (JString ?f) JUndefined ?w3)) =
      [(''run'', [JString ?f, JString ''{}'']), (''run'', [JString ?f, JString ''{}''])]"
    using run_default [OF wf3, of ?f ?d ?p] by (simp add: ser ex de len0 Let_def)
  show ?thesis
    using last e4 by (simp add: wf0 first s1 s2 s3 split: prod.splits)
qed

section \<open>Statistics and termination\<close>

text \<open>
  C8. \<^verbatim>\<open>stats()\<close> returns the value that the \<^verbatim>\<open>stats\<close> of the pool object gives, the
  value itself: it calls it once and touches nothing else, the store included. For an
  instance that \<^verbatim>\<open>create\<close> built, the pool object is the one \<^verbatim>\<open>workerpool.pool\<close>
  returned for the worker's path and the resolved options.
\<close>

theorem stats_is_the_executors:
  "stats this w = (pool_stats (pool this), w\<lparr>stats_calls := stats_calls w + 1\<rparr>)
   \<and> fst (stats (fst (create d rt args w0)) w)
       = pool_stats (workerpool_pool d (WORKER_PATH rt) (options (fst (create d rt args w0))))"
  by (simp add: stats_def create_def WorkerPool_new_def Let_def)

theorem stats_is_the_executors_witness:
  "stats test_workerPool test_world = (JObject 0, test_world\<lparr>stats_calls := 1\<rparr>)
   \<and> heap test_world ! 0 = test_stats"
  using stats_is_the_executors [of test_workerPool test_world test_deps test_runtime "[]" test_world]
  by (simp add: stats_def create_def WorkerPool_new_def Let_def test_workerPool_def
      test_deps_def test_pool_def test_world_def)

text \<open>\<^verbatim>\<open>terminate()\<close> hands the pool object's \<^verbatim>\<open>terminate\<close> the default \<^verbatim>\<open>false\<close>.\<close>

lemma terminate_default:
  "terminate this JUndefined w =
     (pool_terminate (pool this) (JBool False),
      w\<lparr>terminate_calls := terminate_calls w @ [JBool False]\<rparr>)"
  by (simp add: terminate_def Let_def)

end
